theory Spec2Isabelle
  imports Complex_Main
begin

section \<open>The order ledger: a JavaScript \<open>Map<string, number>\<close>\<close>

text \<open>
  \<open>App.tsx\<close> keeps the order in \<open>useState<Map<string, number>>(new Map())\<close>. A JavaScript
  \<open>Map\<close> iterates in insertion order, holds each key once, keeps the position of a key
  whose value is overwritten and appends a new key at the end. It is modelled as an
  association list; \<open>Map_wf\<close> is the invariant that a key occurs once.

  Quantities are JavaScript numbers. Every call site passes \<open>1\<close> or \<open>-1\<close> as \<open>delta\<close>, so the
  quantities are integers and are modelled as \<open>int\<close>.
\<close>

type_synonym ('k, 'v) js_map = "('k \<times> 'v) list"

definition Map_wf :: "('k, 'v) js_map \<Rightarrow> bool" where
  "Map_wf m = distinct (map fst m)"

definition Map_get :: "('k, 'v) js_map \<Rightarrow> 'k \<Rightarrow> 'v option" where
  "Map_get m k = map_of m k"

fun Map_set :: "'k \<Rightarrow> 'v \<Rightarrow> ('k, 'v) js_map \<Rightarrow> ('k, 'v) js_map" where
  "Map_set k v [] = [(k, v)]"
| "Map_set k v (e # m) = (if fst e = k then (k, v) # m else e # Map_set k v m)"

definition Map_delete :: "'k \<Rightarrow> ('k, 'v) js_map \<Rightarrow> ('k, 'v) js_map" where
  "Map_delete k m = filter (\<lambda>e. fst e \<noteq> k) m"

text \<open>
  The updater that \<open>handleUpdateOrder\<close> passes to \<open>setOrder\<close> (\<open>App.tsx\<close>, lines 87 to 93):
  \<^verbatim>\<open>
    const next = new Map(prev);
    const currentQty = (next.get(name) as number) || 0;
    const qty = currentQty + delta;
    qty <= 0 ? next.delete(name) : next.set(name, qty);
    return next;
  \<close>
  \<open>x || 0\<close> is \<open>0\<close> when \<open>x\<close> is \<open>undefined\<close> (key absent) or \<open>0\<close>, and \<open>x\<close> otherwise.
\<close>

definition currentQty :: "(string, int) js_map \<Rightarrow> string \<Rightarrow> int" where
  "currentQty next name = (case Map_get next name of None \<Rightarrow> 0 | Some q \<Rightarrow> q)"

definition updateOrder :: "string \<Rightarrow> int \<Rightarrow> (string, int) js_map \<Rightarrow> (string, int) js_map" where
  "updateOrder name delta prev =
     (let next = prev;
          qty = currentQty next name + delta
      in if qty \<le> 0 then Map_delete name next else Map_set name qty next)"

text \<open>
  The other version of the file, \<open>src/src/App.tsx\<close>, writes the updater with \<open>Math.max\<close>:
  \<^verbatim>\<open>
    const newOrder = new Map(prev);
    const currentQty = (newOrder.get(originalName) as number) || 0;
    const newQty = Math.max(0, currentQty + delta);
    if (newQty === 0) { newOrder.delete(originalName); } else { newOrder.set(originalName, newQty); }
    return newOrder;
  \<close>
\<close>

definition updateOrder_alt :: "string \<Rightarrow> int \<Rightarrow> (string, int) js_map \<Rightarrow> (string, int) js_map" where
  "updateOrder_alt originalName delta prev =
     (let newOrder = prev;
          newQty = max 0 (currentQty newOrder originalName + delta)
      in if newQty = 0 then Map_delete originalName newOrder
         else Map_set originalName newQty newOrder)"

text \<open>A sequence of \<open>handleUpdateOrder(name, delta)\<close> calls, applied from left to right.\<close>

fun updateOrders :: "(string \<times> int) list \<Rightarrow> (string, int) js_map \<Rightarrow> (string, int) js_map" where
  "updateOrders [] m = m"
| "updateOrders (c # cs) m = updateOrders cs (updateOrder (fst c) (snd c) m)"

text \<open>The deltas that a sequence of calls addresses to one identity, in call order.\<close>

definition deltas_for :: "string \<Rightarrow> (string \<times> int) list \<Rightarrow> int list" where
  "deltas_for name cs = map snd (filter (\<lambda>c. fst c = name) cs)"

text \<open>The running sum that is cut off at zero after every step, starting from \<open>q\<close>.\<close>

fun clamped_sum :: "int \<Rightarrow> int list \<Rightarrow> int" where
  "clamped_sum q [] = q"
| "clamped_sum q (d # ds) = clamped_sum (max 0 (q + d)) ds"

text \<open>
  The running sum from \<open>q\<close> never falls below zero: no call takes more than is there.
\<close>

fun never_below_zero :: "int \<Rightarrow> int list \<Rightarrow> bool" where
  "never_below_zero q [] = True"
| "never_below_zero q (d # ds) = (0 \<le> q + d \<and> never_below_zero (q + d) ds)"

text \<open>Every stored quantity is positive: the invariant of the data model.\<close>

definition positive_entries :: "(string, int) js_map \<Rightarrow> bool" where
  "positive_entries m = list_all (\<lambda>e. 0 < snd e) m"

section \<open>The catalog and the order summary (\<open>OrderModal\<close>)\<close>

text \<open>
  \<open>types.ts\<close>: \<open>price\<close>, \<open>category\<close> and \<open>tags\<close> are optional fields; an absent field reads
  as \<open>undefined\<close> and is \<open>None\<close> here.
\<close>

record MenuItem =
  originalName :: string
  translatedName :: string
  description :: string
  translatedDescription :: string
  price :: "string option"
  category :: "string option"
  tags :: "string list option"

text \<open>
  \<^verbatim>\<open>
    const cartItems = Array.from(order.entries()).map(([name, qty]) => {
      const item = menuItems.find(m => m.originalName === name);
      return { item, qty, name };
    }).filter(i => i.item !== undefined);
  \<close>
  An element \<open>{item, qty, name}\<close> is the triple \<open>(item, qty, name)\<close>; the source goes on reading
  \<open>item\<close> through \<open>item?.\<close>, so it stays an option.
\<close>

type_synonym cart_item = "MenuItem option \<times> int \<times> string"

definition cartItems :: "(string, int) js_map \<Rightarrow> MenuItem list \<Rightarrow> cart_item list" where
  "cartItems ord items =
     filter (\<lambda>i. fst i \<noteq> None)
       (map (\<lambda>e. (find (\<lambda>m. originalName m = fst e) items, snd e, fst e)) ord)"

text \<open>
  \<open>item.price.match(/(\d+\.?\d*)/)\<close>: the leftmost match, or \<open>null\<close>. A match starts at the
  first digit of the string; every part after \<open>\d+\<close> is optional and greedy, so the match is
  all the digits from there, then a dot if one follows, then all the digits after the dot.
\<close>

definition is_digit :: "char \<Rightarrow> bool" where
  "is_digit c = (c \<in> set ''0123456789'')"

fun regex_match :: "string \<Rightarrow> string option" where
  "regex_match [] = None"
| "regex_match (c # cs) =
     (if is_digit c then
        Some (case dropWhile is_digit (c # cs) of
                [] \<Rightarrow> takeWhile is_digit (c # cs)
              | d # r \<Rightarrow> if d = CHR ''.'' then takeWhile is_digit (c # cs) @ ''.'' @ takeWhile is_digit r
                         else takeWhile is_digit (c # cs))
      else regex_match cs)"

text \<open>
  \<open>parseFloat\<close> on a string that the pattern above produces (digits, then possibly a dot and
  digits): its decimal value. JavaScript rounds the value to a double; the model keeps the
  exact real number.
\<close>

definition digit_val :: "char \<Rightarrow> nat" where
  "digit_val c = of_char c - 48"

definition digits_val :: "string \<Rightarrow> nat" where
  "digits_val ds = foldl (\<lambda>a c. 10 * a + digit_val c) 0 ds"

definition parseFloat :: "string \<Rightarrow> real" where
  "parseFloat s =
     (let ip = takeWhile is_digit s;
          fp = (case dropWhile is_digit s of
                  [] \<Rightarrow> []
                | d # r \<Rightarrow> if d = CHR ''.'' then takeWhile is_digit r else [])
      in real (digits_val ip) + real (digits_val fp) / 10 ^ length fp)"

text \<open>
  \<^verbatim>\<open>
    const cartTotal = cartItems.reduce((sum, { item, qty }) => {
      if (!item?.price) return sum;
      const match = item.price.match(/(\d+\.?\d*)/);
      const price = match ? parseFloat(match[0]) : 0;
      return sum + (price * qty);
    }, 0);
  \<close>
  \<open>!item?.price\<close> holds when the item is \<open>undefined\<close>, the price is \<open>undefined\<close> or the price
  is the empty string.
\<close>

definition price_of :: "string \<Rightarrow> real" where
  "price_of p = (case regex_match p of None \<Rightarrow> 0 | Some m \<Rightarrow> parseFloat m)"

definition cartTotal_step :: "real \<Rightarrow> cart_item \<Rightarrow> real" where
  "cartTotal_step acc i =
     (case fst i of
        None \<Rightarrow> acc
      | Some it \<Rightarrow>
          (case price it of
             None \<Rightarrow> acc
           | Some p \<Rightarrow> if p = [] then acc else acc + price_of p * real_of_int (fst (snd i))))"

definition cartTotal :: "cart_item list \<Rightarrow> real" where
  "cartTotal cart = foldl cartTotal_step 0 cart"

text \<open>
  \<^verbatim>\<open>
    const currencySymbol = cartItems[0]?.item?.price?.replace(/\d|\.| /g, '') || '$';
  \<close>
\<close>

definition strip_price :: "string \<Rightarrow> string" where
  "strip_price p = filter (\<lambda>c. \<not> is_digit c \<and> c \<noteq> CHR ''.'' \<and> c \<noteq> CHR '' '') p"

definition currencySymbol :: "cart_item list \<Rightarrow> string" where
  "currencySymbol cart =
     (case cart of
        [] \<Rightarrow> ''$''
      | i # _ \<Rightarrow>
          (case fst i of
             None \<Rightarrow> ''$''
           | Some it \<Rightarrow>
               (case price it of
                  None \<Rightarrow> ''$''
                | Some p \<Rightarrow> if strip_price p = [] then ''$'' else strip_price p)))"

text \<open>
  The other version of \<open>App.tsx\<close>, \<open>src/src/App.tsx\<close>, shows the total of the order in its
  order bar with a currency symbol of its own (line 180):
  \<^verbatim>\<open>
    const currencySymbol = menuItems.find(m => m.price)?.price?.replace(/\d|\.| /g, '') || '$';
  \<close>
  \<open>m.price\<close> as a test holds when the price is there and is not the empty string.
\<close>

definition has_price :: "MenuItem \<Rightarrow> bool" where
  "has_price m = (case price m of None \<Rightarrow> False | Some p \<Rightarrow> p \<noteq> [])"

definition currencySymbol_App :: "MenuItem list \<Rightarrow> string" where
  "currencySymbol_App items =
     (case find has_price items of
        None \<Rightarrow> ''$''
      | Some m \<Rightarrow>
          (case price m of
             None \<Rightarrow> ''$''
           | Some p \<Rightarrow> if strip_price p = [] then ''$'' else strip_price p))"

text \<open>
  \<open>App.tsx\<close>, line 97:
  \<^verbatim>\<open>
    const totalItems: number = Array.from<number>(order.values()).reduce((a, b) => a + b, 0);
  \<close>
\<close>

definition totalItems :: "(string, int) js_map \<Rightarrow> int" where
  "totalItems ord = foldl (\<lambda>a b. a + b) 0 (map snd ord)"

text \<open>
  The words of the specification for the total price: the sum, over the entries whose dish
  resolves in the catalog and has a price, of the extracted value times the quantity.
\<close>

definition resolve :: "MenuItem list \<Rightarrow> string \<Rightarrow> MenuItem option" where
  "resolve items n = find (\<lambda>m. originalName m = n) items"

definition entry_price :: "MenuItem list \<Rightarrow> string \<times> int \<Rightarrow> real" where
  "entry_price items e =
     (case resolve items (fst e) of
        None \<Rightarrow> 0
      | Some it \<Rightarrow> (case price it of None \<Rightarrow> 0 | Some p \<Rightarrow> price_of p * real_of_int (snd e)))"

definition totalPrice_spec :: "(string, int) js_map \<Rightarrow> MenuItem list \<Rightarrow> real" where
  "totalPrice_spec ord items = sum_list (map (entry_price items) ord)"

text \<open>A string starts with a character that satisfies \<open>P\<close>.\<close>

definition starts_with :: "(char \<Rightarrow> bool) \<Rightarrow> string \<Rightarrow> bool" where
  "starts_with P s = (case s of [] \<Rightarrow> False | c # _ \<Rightarrow> P c)"

text \<open>
  The dish of the first ledger entry that resolves in the catalog: the first dish of the
  display list.
\<close>

definition first_resolved :: "(string, int) js_map \<Rightarrow> MenuItem list \<Rightarrow> MenuItem option" where
  "first_resolved ord items =
     (case find (\<lambda>e. resolve items (fst e) \<noteq> None) ord of
        None \<Rightarrow> None
      | Some e \<Rightarrow> resolve items (fst e))"

text \<open>
  The words of the specification for the currency symbol: the price string of the first
  dish of a list that has a price. As in the tests \<open>!item?.price\<close> and \<open>m.price\<close> of the source,
  a dish has a price when the field is there and is not the empty string.
\<close>

fun first_price :: "MenuItem list \<Rightarrow> string option" where
  "first_price [] = None"
| "first_price (m # ms) =
     (case price m of
        None \<Rightarrow> first_price ms
      | Some p \<Rightarrow> if p = [] then first_price ms else Some p)"

section \<open>The bill splitter (\<open>OrderModal\<close>, lines 52 to 60)\<close>

text \<open>
  \<^verbatim>\<open>
    const billBase = parseFloat(customBillAmount) || 0;
    const tipAmount = billBase * (tipPercent / 100);
    const finalTotal = billBase + tipAmount;
    const splitBy = Math.max(1, splitCount);
    const perPersonTotal = finalTotal / splitBy;
    const perPersonBill = billBase / splitBy;
    const perPersonTip = tipAmount / splitBy;
  \<close>
  Numbers are real numbers here: the rounding of JavaScript's doubles is not modelled.
  \<open>billBase\<close> takes what \<open>parseFloat\<close> made of the input field, \<open>None\<close> standing for \<open>NaN\<close>.
  \<open>splitCount\<close> starts at 1 and moves by the two buttons in steps of 1: an integer.
\<close>

definition billBase :: "real option \<Rightarrow> real" where
  "billBase parsed = (case parsed of None \<Rightarrow> 0 | Some x \<Rightarrow> x)"

definition tipAmount :: "real \<Rightarrow> real \<Rightarrow> real" where
  "tipAmount base tipPercent = base * (tipPercent / 100)"

definition finalTotal :: "real \<Rightarrow> real \<Rightarrow> real" where
  "finalTotal base tipPercent = base + tipAmount base tipPercent"

definition splitBy :: "int \<Rightarrow> int" where
  "splitBy splitCount = max 1 splitCount"

definition perPersonTotal :: "real \<Rightarrow> real \<Rightarrow> int \<Rightarrow> real" where
  "perPersonTotal base tipPercent splitCount =
     finalTotal base tipPercent / real_of_int (splitBy splitCount)"

definition perPersonBill :: "real \<Rightarrow> int \<Rightarrow> real" where
  "perPersonBill base splitCount = base / real_of_int (splitBy splitCount)"

definition perPersonTip :: "real \<Rightarrow> real \<Rightarrow> int \<Rightarrow> real" where
  "perPersonTip base tipPercent splitCount =
     tipAmount base tipPercent / real_of_int (splitBy splitCount)"

section \<open>The filter verdicts (\<open>MenuGrid\<close>, lines 124 to 160)\<close>

text \<open>
  \<^verbatim>\<open>
    const hasTag = (item: MenuItem, tag: string) => item.tags?.includes(tag);
  \<close>
  is \<open>undefined\<close> when the dish has no \<open>tags\<close>. Every use of the result is a test
  (\<open>||\<close>, \<open>&&\<close>, \<open>!\<close>, \<open>? :\<close>), where \<open>undefined\<close> counts as \<open>false\<close>: the model returns the
  truth value.
\<close>

record activeFilters =
  vegetarian :: bool
  nutAllergy :: bool
  noPork :: bool
  spicy :: bool

definition hasTag :: "MenuItem \<Rightarrow> string \<Rightarrow> bool" where
  "hasTag dish tag = (case tags dish of None \<Rightarrow> False | Some ts \<Rightarrow> tag \<in> set ts)"

definition isVeg :: "MenuItem \<Rightarrow> bool" where
  "isVeg dish = (hasTag dish ''Vegetarian'' \<or> hasTag dish ''Vegan'')"

definition hasNuts :: "MenuItem \<Rightarrow> bool" where
  "hasNuts dish = hasTag dish ''Contains Nuts''"

definition hasPork :: "MenuItem \<Rightarrow> bool" where
  "hasPork dish = hasTag dish ''Contains Pork''"

definition isSpicy :: "MenuItem \<Rightarrow> bool" where
  "isSpicy dish = hasTag dish ''Spicy''"

definition isDimmed :: "activeFilters \<Rightarrow> MenuItem \<Rightarrow> bool" where
  "isDimmed f dish = (vegetarian f \<and> \<not> isVeg dish)"

definition showNutWarning :: "activeFilters \<Rightarrow> MenuItem \<Rightarrow> bool" where
  "showNutWarning f dish = (nutAllergy f \<and> hasNuts dish)"

definition showPorkWarning :: "activeFilters \<Rightarrow> MenuItem \<Rightarrow> bool" where
  "showPorkWarning f dish = (noPork f \<and> hasPork dish)"

definition isUnsafe :: "activeFilters \<Rightarrow> MenuItem \<Rightarrow> bool" where
  "isUnsafe f dish = (showNutWarning f dish \<or> showPorkWarning f dish)"

definition highlightSpicy :: "activeFilters \<Rightarrow> MenuItem \<Rightarrow> bool" where
  "highlightSpicy f dish = (spicy f \<and> isSpicy dish)"

text \<open>
  The warning overlay, lines 155 to 160: the list of badges that the card shows.
  \<^verbatim>\<open>
    {isUnsafe && (
      <div ...> <AlertTriangle .../> {showNutWarning ? 'CONTAINS NUTS' : 'CONTAINS PORK'} </div>
    )}
  \<close>
\<close>

definition warningBadges :: "activeFilters \<Rightarrow> MenuItem \<Rightarrow> string list" where
  "warningBadges f dish =
     (if isUnsafe f dish
      then [if showNutWarning f dish then ''CONTAINS NUTS'' else ''CONTAINS PORK'']
      else [])"

text \<open>The tags of a dish as a set: empty when the dish has no \<open>tags\<close>.\<close>

definition tag_set :: "MenuItem \<Rightarrow> string set" where
  "tag_set dish = (case tags dish of None \<Rightarrow> {} | Some ts \<Rightarrow> set ts)"

section \<open>The application state and the persisted slot (\<open>App.tsx\<close>)\<close>

datatype AppState = UPLOAD | PROCESSING_MENU | MENU_VIEW | RECOMMENDATION_VIEW

text \<open>
  The repository holds two versions of \<open>App.tsx\<close>; the model follows \<open>src/App.tsx\<close>.

  The state of \<open>App\<close> that takes part in persistence, and the \<open>localStorage\<close> slot
  \<open>'menuLensState'\<close> (\<open>None\<close>: no item under that key). TypeScript declares \<open>menuItems\<close> as
  \<open>MenuItem[]\<close>, the two names as \<open>string\<close> and the order as \<open>Map<string, number>\<close>, but the
  load effect stores what \<open>JSON.parse\<close> returned (type \<open>any\<close>) without a check. The record
  is therefore polymorphic: \<open>app_typed\<close> is the state as declared, \<open>app_runtime\<close> the state
  with whatever values a load can put into it.
\<close>

record ('m, 's, 'k, 'q) app =
  appState :: AppState
  menuItems :: 'm
  restaurantName :: 's
  restaurantLocation :: 's
  order :: "('k, 'q) js_map"
  slot :: "string option"

text \<open>
  Values at run time, as far as JSON reaches: what \<open>JSON.parse\<close> can return, and
  \<open>undefined\<close>, which reading a missing property gives. \<open>JNum\<close> carries the number's value.
  An object is the list of its own properties, each name once.
\<close>

datatype jsval =
    JUndefined
  | JNull
  | JBool bool
  | JNum real
  | JStr string
  | JArr "jsval list"
  | JObj "(string \<times> jsval) list"

datatype exn = SyntaxError | TypeError

type_synonym app_typed = "(MenuItem list, string, string, int) app"
type_synonym app_runtime = "(jsval, jsval, jsval, jsval) app"

text \<open>\<open>handleUpdateOrder\<close> calls \<open>setOrder\<close> with the updater and nothing else.\<close>

definition handleUpdateOrder ::
  "string \<Rightarrow> int \<Rightarrow> ('m, 's, string, int) app \<Rightarrow> ('m, 's, string, int) app" where
  "handleUpdateOrder name delta st = st\<lparr>order := updateOrder name delta (order st)\<rparr>"

subsection \<open>Saving (lines 45 to 54)\<close>

text \<open>
  \<^verbatim>\<open>
    if (menuItems.length > 0) {
      localStorage.setItem('menuLensState', JSON.stringify({
        menuItems, restaurantName, restaurantLocation,
        order: Array.from(order.entries())
      }));
    }
  \<close>
  \<open>JSON.stringify\<close> belongs to the platform and is a parameter \<open>S\<close> of the model, from the
  value it serialises to the text. \<open>js_MenuItem\<close> is a dish as that value: a property whose
  value is \<open>undefined\<close> is left out by \<open>JSON.stringify\<close>.
\<close>

definition js_MenuItem :: "MenuItem \<Rightarrow> jsval" where
  "js_MenuItem m =
     JObj ([(''originalName'', JStr (originalName m)),
            (''translatedName'', JStr (translatedName m)),
            (''description'', JStr (description m)),
            (''translatedDescription'', JStr (translatedDescription m))]
           @ (case price m of None \<Rightarrow> [] | Some p \<Rightarrow> [(''price'', JStr p)])
           @ (case category m of None \<Rightarrow> [] | Some c \<Rightarrow> [(''category'', JStr c)])
           @ (case tags m of None \<Rightarrow> [] | Some ts \<Rightarrow> [(''tags'', JArr (map JStr ts))]))"

definition js_entry :: "string \<times> int \<Rightarrow> jsval" where
  "js_entry e = JArr [JStr (fst e), JNum (real_of_int (snd e))]"

definition snapshot_json :: "app_typed \<Rightarrow> jsval" where
  "snapshot_json st =
     JObj [(''menuItems'', JArr (map js_MenuItem (menuItems st))),
           (''restaurantName'', JStr (restaurantName st)),
           (''restaurantLocation'', JStr (restaurantLocation st)),
           (''order'', JArr (map js_entry (order st)))]"

definition save_effect :: "(jsval \<Rightarrow> string) \<Rightarrow> app_typed \<Rightarrow> app_typed" where
  "save_effect S st =
     (if length (menuItems st) > 0 then st\<lparr>slot := Some (S (snapshot_json st))\<rparr> else st)"

subsection \<open>Loading (lines 27 to 43)\<close>

text \<open>The tests of JavaScript: \<open>if (v)\<close>, \<open>v || w\<close>.\<close>

fun js_truthy :: "jsval \<Rightarrow> bool" where
  "js_truthy JUndefined = False"
| "js_truthy JNull = False"
| "js_truthy (JBool b) = b"
| "js_truthy (JNum x) = (x \<noteq> 0)"
| "js_truthy (JStr s) = (s \<noteq> [])"
| "js_truthy (JArr xs) = True"
| "js_truthy (JObj fs) = True"

definition js_or :: "jsval \<Rightarrow> jsval \<Rightarrow> jsval" where
  "js_or v w = (if js_truthy v then v else w)"

text \<open>
  Reading a property \<open>v.n\<close>, for the names the load effect reads (\<open>menuItems\<close>,
  \<open>restaurantName\<close>, \<open>restaurantLocation\<close>, \<open>order\<close>, \<open>length\<close>): a \<open>TypeError\<close> on \<open>null\<close> and
  \<open>undefined\<close>; the own property of an object; the length of an array or a string (only
  whether it is zero matters below); \<open>undefined\<close> otherwise.
\<close>

definition own_property :: "(string \<times> jsval) list \<Rightarrow> string \<Rightarrow> jsval" where
  "own_property fs n = (case map_of fs n of None \<Rightarrow> JUndefined | Some v \<Rightarrow> v)"

fun js_prop :: "jsval \<Rightarrow> string \<Rightarrow> exn + jsval" where
  "js_prop JUndefined n = Inl TypeError"
| "js_prop JNull n = Inl TypeError"
| "js_prop (JBool b) n = Inr JUndefined"
| "js_prop (JNum x) n = Inr JUndefined"
| "js_prop (JStr s) n = Inr (if n = ''length'' then JNum (real (length s)) else JUndefined)"
| "js_prop (JArr xs) n = Inr (if n = ''length'' then JNum (real (length xs)) else JUndefined)"
| "js_prop (JObj fs) n = Inr (own_property fs n)"

text \<open>\<open>v?.length\<close>: \<open>undefined\<close> when \<open>v\<close> is \<open>null\<close> or \<open>undefined\<close>, \<open>v.length\<close> otherwise.\<close>

definition opt_length :: "jsval \<Rightarrow> exn + jsval" where
  "opt_length v =
     (case v of JUndefined \<Rightarrow> Inr JUndefined | JNull \<Rightarrow> Inr JUndefined | _ \<Rightarrow> js_prop v ''length'')"

text \<open>
  \<open>new Map(iterable)\<close>. An array is iterated element by element; every element must be an
  object (else \<open>TypeError\<close>), its properties \<open>0\<close> and \<open>1\<close> are the key and the value. A
  non-empty string iterates to strings, which are not objects; a boolean, a number and a
  plain object are not iterable. Keys are compared by SameValueZero: primitive values by
  value, while every array or object that \<open>JSON.parse\<close> built is an object of its own and
  equals no other key.
\<close>

fun entry_of :: "jsval \<Rightarrow> exn + (jsval \<times> jsval)" where
  "entry_of (JArr xs) =
     Inr (case xs of [] \<Rightarrow> (JUndefined, JUndefined)
          | k # r \<Rightarrow> (k, case r of [] \<Rightarrow> JUndefined | v # _ \<Rightarrow> v))"
| "entry_of (JObj fs) = Inr (own_property fs ''0'', own_property fs ''1'')"
| "entry_of v = Inl TypeError"

fun is_primitive :: "jsval \<Rightarrow> bool" where
  "is_primitive (JArr xs) = False"
| "is_primitive (JObj fs) = False"
| "is_primitive v = True"

definition same_value_zero :: "jsval \<Rightarrow> jsval \<Rightarrow> bool" where
  "same_value_zero a b = (is_primitive a \<and> a = b)"

fun Map_set_rt :: "jsval \<Rightarrow> jsval \<Rightarrow> (jsval, jsval) js_map \<Rightarrow> (jsval, jsval) js_map" where
  "Map_set_rt k v [] = [(k, v)]"
| "Map_set_rt k v (e # m) =
     (if same_value_zero (fst e) k then (fst e, v) # m else e # Map_set_rt k v m)"

fun Map_add_entries :: "jsval list \<Rightarrow> (jsval, jsval) js_map \<Rightarrow> exn + (jsval, jsval) js_map" where
  "Map_add_entries [] m = Inr m"
| "Map_add_entries (x # xs) m =
     (case entry_of x of
        Inl e \<Rightarrow> Inl e
      | Inr kv \<Rightarrow> Map_add_entries xs (Map_set_rt (fst kv) (snd kv) m))"

definition new_Map :: "jsval \<Rightarrow> exn + (jsval, jsval) js_map" where
  "new_Map iterable =
     (case iterable of
        JUndefined \<Rightarrow> Inr []
      | JNull \<Rightarrow> Inr []
      | JArr xs \<Rightarrow> Map_add_entries xs []
      | JStr s \<Rightarrow> if s = [] then Inr [] else Inl TypeError
      | _ \<Rightarrow> Inl TypeError)"

text \<open>
  The body of the \<open>try\<close> block, on the text \<open>saved\<close>:
  \<^verbatim>\<open>
    const parsed = JSON.parse(saved);
    if (parsed.menuItems?.length) {
      setMenuItems(parsed.menuItems);
      setRestaurantName(parsed.restaurantName || '');
      setRestaurantLocation(parsed.restaurantLocation || '');
      if (parsed.order) setOrder(new Map(parsed.order));
      setAppState(AppState.MENU_VIEW);
    }
  \<close>
  \<open>JSON.parse\<close> belongs to the platform and is a parameter \<open>P\<close> of the model: \<open>None\<close> is the
  \<open>SyntaxError\<close> it throws. The result is the state with the setters applied that were
  called, and the exception that ended the block, if one did: a setter that was called
  before a \<open>throw\<close> keeps its effect.
\<close>

definition load_try :: "(string \<Rightarrow> jsval option) \<Rightarrow> string \<Rightarrow> app_runtime \<Rightarrow> app_runtime \<times> exn option" where
  "load_try P saved st =
     (case P saved of
        None \<Rightarrow> (st, Some SyntaxError)
      | Some parsed \<Rightarrow>
          (case js_prop parsed ''menuItems'' of
             Inl e \<Rightarrow> (st, Some e)
           | Inr mi \<Rightarrow>
               (case opt_length mi of
                  Inl e \<Rightarrow> (st, Some e)
                | Inr len \<Rightarrow>
                    if js_truthy len then
                      (let st1 = st\<lparr>menuItems := mi\<rparr> in
                       case js_prop parsed ''restaurantName'' of
                         Inl e \<Rightarrow> (st1, Some e)
                       | Inr rn \<Rightarrow>
                           (let st2 = st1\<lparr>restaurantName := js_or rn (JStr [])\<rparr> in
                            case js_prop parsed ''restaurantLocation'' of
                              Inl e \<Rightarrow> (st2, Some e)
                            | Inr rl \<Rightarrow>
                                (let st3 = st2\<lparr>restaurantLocation := js_or rl (JStr [])\<rparr> in
                                 case js_prop parsed ''order'' of
                                   Inl e \<Rightarrow> (st3, Some e)
                                 | Inr ord \<Rightarrow>
                                     if js_truthy ord then
                                       (case new_Map ord of
                                          Inl e \<Rightarrow> (st3, Some e)
                                        | Inr m \<Rightarrow> (st3\<lparr>order := m, appState := MENU_VIEW\<rparr>, None))
                                     else (st3\<lparr>appState := MENU_VIEW\<rparr>, None))))
                    else (st, None))))"

text \<open>
  The effect:
  \<^verbatim>\<open>
    const saved = localStorage.getItem('menuLensState');
    if (saved) {
      try { ... } catch (e) { localStorage.removeItem('menuLensState'); }
    }
  \<close>
  \<open>Inl\<close> would be an exception that leaves the effect.
\<close>

definition load_effect :: "(string \<Rightarrow> jsval option) \<Rightarrow> app_runtime \<Rightarrow> exn + app_runtime" where
  "load_effect P st =
     (case slot st of
        None \<Rightarrow> Inr st
      | Some saved \<Rightarrow>
          if saved = [] then Inr st
          else (case load_try P saved st of
                  (st', None) \<Rightarrow> Inr st'
                | (st', Some e) \<Rightarrow> Inr (st'\<lparr>slot := None\<rparr>)))"

text \<open>
  The test \<open>parsed.menuItems?.length\<close> on a parsed value: whether the required field
  \<open>menuItems\<close> is there and not empty.
\<close>

definition has_menu :: "jsval \<Rightarrow> bool" where
  "has_menu parsed =
     (case js_prop parsed ''menuItems'' of
        Inl e \<Rightarrow> False
      | Inr mi \<Rightarrow> (case opt_length mi of Inl e \<Rightarrow> False | Inr len \<Rightarrow> js_truthy len))"


subsection \<open>The typed state at run time, and the runs of the application\<close>

text \<open>
  The values of the declared types as they are held at run time: a dish as an object, a
  ledger entry as a string key and a number.
\<close>

definition rt_entry :: "string \<times> int \<Rightarrow> jsval \<times> jsval" where
  "rt_entry e = (JStr (fst e), JNum (real_of_int (snd e)))"

definition runtime_of :: "app_typed \<Rightarrow> app_runtime" where
  "runtime_of st =
     \<lparr>appState = appState st,
      menuItems = JArr (map js_MenuItem (menuItems st)),
      restaurantName = JStr (restaurantName st),
      restaurantLocation = JStr (restaurantLocation st),
      order = map rt_entry (order st),
      slot = slot st\<rparr>"

text \<open>The state of a fresh page, lines 14 to 20, with \<open>c\<close> in the slot.\<close>

definition initial :: "string option \<Rightarrow> app_typed" where
  "initial c =
     \<lparr>appState = UPLOAD, menuItems = [], restaurantName = [], restaurantLocation = [],
      order = [], slot = c\<rparr>"

text \<open>
  What the user and the menu service can make happen, and the handler of each:
  \<^item> \<open>FileSelected\<close>: \<open>handleFileSelect\<close> up to its \<open>await\<close>;
  \<^item> \<open>MenuParsed items name\<close>: \<open>parseMenuImage\<close> returned \<open>{items, restaurantName}\<close>;
  \<^item> \<open>ParseFailed\<close>: \<open>parseMenuImage\<close> threw;
  \<^item> \<open>UpdateOrder name delta\<close>: \<open>handleUpdateOrder(name, delta)\<close>;
  \<^item> \<open>NewScan\<close>: the camera button, line 104;
  \<^item> \<open>RestaurantSaved n l\<close>: \<open>onSave\<close> of the restaurant dialog, line 160;
  \<^item> \<open>GetRecs\<close>, \<open>Back\<close>: the two view buttons, lines 114 and 131.
  The handlers are taken without the conditions under which their buttons are drawn.
\<close>

datatype event =
    FileSelected
  | MenuParsed "MenuItem list" string
  | ParseFailed
  | UpdateOrder string int
  | NewScan
  | RestaurantSaved string string
  | GetRecs
  | Back

fun handle :: "event \<Rightarrow> app_typed \<Rightarrow> app_typed" where
  "handle FileSelected st = st\<lparr>appState := PROCESSING_MENU\<rparr>"
| "handle (MenuParsed items rn) st =
     st\<lparr>menuItems := items,
        restaurantName := (if rn = [] then ''Unknown Restaurant'' else rn),
        order := [],
        appState := MENU_VIEW\<rparr>"
| "handle ParseFailed st = st\<lparr>appState := UPLOAD\<rparr>"
| "handle (UpdateOrder n d) st = handleUpdateOrder n d st"
| "handle NewScan st = st\<lparr>slot := None, menuItems := [], appState := UPLOAD\<rparr>"
| "handle (RestaurantSaved n l) st = st\<lparr>restaurantName := n, restaurantLocation := l\<rparr>"
| "handle GetRecs st = st\<lparr>appState := RECOMMENDATION_VIEW\<rparr>"
| "handle Back st = st\<lparr>appState := MENU_VIEW\<rparr>"

text \<open>
  The save effect has the dependencies \<open>[menuItems, restaurantName, restaurantLocation,
  order]\<close>: it runs after a render in which one of them is not the same as before. A new array
  and a new \<open>Map\<close> are never the same as the old ones, strings are compared by value.
\<close>

fun deps_changed :: "event \<Rightarrow> app_typed \<Rightarrow> bool" where
  "deps_changed (MenuParsed items rn) st = True"
| "deps_changed (UpdateOrder n d) st = True"
| "deps_changed NewScan st = True"
| "deps_changed (RestaurantSaved n l) st = (n \<noteq> restaurantName st \<or> l \<noteq> restaurantLocation st)"
| "deps_changed ev st = False"

definition step :: "(jsval \<Rightarrow> string) \<Rightarrow> event \<Rightarrow> app_typed \<Rightarrow> app_typed" where
  "step S ev st = (if deps_changed ev st then save_effect S (handle ev st) else handle ev st)"

text \<open>
  The states of a session that starts with \<open>c\<close> in the slot. On mount the load effect runs on
  the fresh state and then the save effect; afterwards every event is followed by the save
  effect when a dependency changed. The states are those of the declared types.
\<close>

inductive reachable ::
  "(string \<Rightarrow> jsval option) \<Rightarrow> (jsval \<Rightarrow> string) \<Rightarrow> string option \<Rightarrow> app_typed \<Rightarrow> bool"
  for P :: "string \<Rightarrow> jsval option" and S :: "jsval \<Rightarrow> string" and c :: "string option" where
  mounted: "load_effect P (runtime_of (initial c)) = Inr (runtime_of st) \<Longrightarrow>
            reachable P S c (save_effect S st)"
| stepped: "reachable P S c st \<Longrightarrow> reachable P S c (step S ev st)"

text \<open>A sequence of events, each followed by the save effect as \<open>step\<close> says.\<close>

fun run :: "(jsval \<Rightarrow> string) \<Rightarrow> event list \<Rightarrow> app_typed \<Rightarrow> app_typed" where
  "run S [] st = st"
| "run S (ev # evs) st = run S evs (step S ev st)"

section \<open>Example data\<close>

text \<open>
  Stand-ins for the platform's \<open>JSON.parse\<close> and \<open>JSON.stringify\<close> in the examples: a parser
  that knows the listed texts and throws on every other one, and a serialiser that knows
  the listed values.
\<close>

definition parse_table :: "(string \<times> jsval) list \<Rightarrow> string \<Rightarrow> jsval option" where
  "parse_table t s = map_of t s"

definition stringify_table :: "(jsval \<times> string) list \<Rightarrow> jsval \<Rightarrow> string" where
  "stringify_table t v = (case map_of t v of None \<Rightarrow> ''null'' | Some s \<Rightarrow> s)"


definition ramen :: MenuItem where
  "ramen = \<lparr>originalName = ''Ramen'', translatedName = ''Noodle soup'', description = [],
            translatedDescription = [], price = Some ''$12.50'', category = None,
            tags = Some [''Contains Pork'', ''Spicy'']\<rparr>"

definition gyoza :: MenuItem where
  "gyoza = \<lparr>originalName = ''Gyoza'', translatedName = ''Dumplings'', description = [],
            translatedDescription = [], price = None, category = Some ''Starters'',
            tags = None\<rparr>"

definition tea :: MenuItem where
  "tea = \<lparr>originalName = ''Tea'', translatedName = ''Green tea'', description = [],
          translatedDescription = [], price = Some ''EUR 3'', category = None,
          tags = Some [''Vegan'']\<rparr>"

definition udon :: MenuItem where
  "udon = \<lparr>originalName = ''Udon'', translatedName = ''Thick noodles'', description = [],
           translatedDescription = [], price = Some ''12.50'', category = None, tags = None\<rparr>"

definition satay :: MenuItem where
  "satay = \<lparr>originalName = ''Satay'', translatedName = ''Skewers'', description = [],
            translatedDescription = [], price = None, category = None,
            tags = Some [''Contains Nuts'', ''Contains Pork'']\<rparr>"

definition session :: app_typed where
  "session =
     \<lparr>appState = MENU_VIEW, menuItems = [ramen, gyoza], restaurantName = ''Sakura'',
      restaurantLocation = ''Kyoto'', order = [(''Ramen'', 2), (''Gyoza'', 1)], slot = None\<rparr>"

definition session_text :: string where
  "session_text = ''{menuItems:[Ramen,Gyoza],restaurantName:Sakura,restaurantLocation:Kyoto,order:[[Ramen,2],[Gyoza,1]]}''"

section \<open>Facts about the ledger operations\<close>

lemma Map_get_set: "Map_get (Map_set k v m) k' = (if k' = k then Some v else Map_get m k')"
  by (induction m) (auto simp: Map_get_def)

lemma Map_get_delete: "Map_get (Map_delete k m) k' = (if k' = k then None else Map_get m k')"
  by (induction m) (auto simp: Map_get_def Map_delete_def)

lemma keys_Map_set: "fst ` set (Map_set k v m) = insert k (fst ` set m)"
  by (induction m) auto

lemma Map_wf_set: "Map_wf m \<Longrightarrow> Map_wf (Map_set k v m)"
proof (induction m)
  case Nil
  then show ?case by (simp add: Map_wf_def)
next
  case (Cons e m)
  have "fst e \<noteq> k \<Longrightarrow> fst e \<notin> fst ` set m \<Longrightarrow> fst e \<notin> fst ` set (Map_set k v m)"
    by (simp add: keys_Map_set)
  with Cons show ?case by (auto simp: Map_wf_def)
qed

lemma Map_wf_delete: "Map_wf m \<Longrightarrow> Map_wf (Map_delete k m)"
  by (simp add: Map_wf_def Map_delete_def distinct_map_filter)

lemma updateOrder_alt_eq: "updateOrder_alt name delta m = updateOrder name delta m"
  by (simp add: updateOrder_alt_def updateOrder_def Let_def max_def)

lemma Map_wf_updateOrder: "Map_wf m \<Longrightarrow> Map_wf (updateOrder name delta m)"
  by (simp add: updateOrder_def Let_def Map_wf_set Map_wf_delete)

lemma Map_get_None_iff: "Map_get m k = None \<longleftrightarrow> k \<notin> fst ` set m"
  by (simp add: Map_get_def map_of_eq_None_iff)

lemma currentQty_updateOrder_same:
  "currentQty (updateOrder name delta m) name = max 0 (currentQty m name + delta)"
  by (simp add: updateOrder_def Let_def currentQty_def Map_get_set Map_get_delete)

lemma currentQty_updateOrder_other:
  "other \<noteq> name \<Longrightarrow> currentQty (updateOrder name delta m) other = currentQty m other"
  by (simp add: updateOrder_def Let_def currentQty_def Map_get_set Map_get_delete)

lemma Map_get_updateOrder_other:
  "other \<noteq> name \<Longrightarrow> Map_get (updateOrder name delta m) other = Map_get m other"
  by (simp add: updateOrder_def Let_def Map_get_set Map_get_delete)

lemma positive_entries_set:
  "positive_entries m \<Longrightarrow> 0 < v \<Longrightarrow> positive_entries (Map_set k v m)"
  by (induction m) (auto simp: positive_entries_def)

lemma positive_entries_updateOrder:
  "positive_entries m \<Longrightarrow> positive_entries (updateOrder name delta m)"
  by (auto simp: updateOrder_def Let_def positive_entries_set)
     (simp add: positive_entries_def Map_delete_def list_all_iff)

lemma positive_entries_present:
  assumes "positive_entries m" "Map_wf m"
  shows "name \<in> fst ` set m \<longleftrightarrow> 0 < currentQty m name"
proof
  assume "name \<in> fst ` set m"
  then obtain q where q: "(name, q) \<in> set m" by auto
  with assms(2) have "Map_get m name = Some q"
    by (simp add: Map_get_def Map_wf_def)
  moreover from q assms(1) have "0 < q"
    by (auto simp: positive_entries_def list_all_iff)
  ultimately show "0 < currentQty m name" by (simp add: currentQty_def)
next
  assume "0 < currentQty m name"
  then have "Map_get m name \<noteq> None" by (auto simp: currentQty_def split: option.splits)
  then show "name \<in> fst ` set m" by (simp add: Map_get_None_iff)
qed

lemma updateOrders_invariants:
  "Map_wf m \<Longrightarrow> positive_entries m \<Longrightarrow>
   Map_wf (updateOrders cs m) \<and> positive_entries (updateOrders cs m)"
  by (induction cs arbitrary: m) (simp_all add: Map_wf_updateOrder positive_entries_updateOrder)

lemma currentQty_updateOrders:
  "currentQty (updateOrders cs m) name = clamped_sum (currentQty m name) (deltas_for name cs)"
proof (induction cs arbitrary: m)
  case Nil
  then show ?case by (simp add: deltas_for_def)
next
  case (Cons c cs)
  show ?case
  proof (cases "fst c = name")
    case True
    then show ?thesis
      using Cons [of "updateOrder (fst c) (snd c) m"]
      by (simp add: deltas_for_def currentQty_updateOrder_same)
  next
    case False
    then show ?thesis
      using Cons [of "updateOrder (fst c) (snd c) m"]
      by (simp add: deltas_for_def currentQty_updateOrder_other)
  qed
qed

lemma clamped_sum_nonneg: "0 \<le> q \<Longrightarrow> 0 \<le> clamped_sum q ds"
  by (induction ds arbitrary: q) simp_all

lemma clamped_sum_never_below:
  "never_below_zero q ds \<Longrightarrow> clamped_sum q ds = q + sum_list ds"
  by (induction ds arbitrary: q) (simp_all add: max_def)

lemma never_below_zero_sum: "0 \<le> q \<Longrightarrow> never_below_zero q ds \<Longrightarrow> 0 \<le> q + sum_list ds"
  by (induction ds arbitrary: q) (simp_all add: add.assoc [symmetric])

lemma Map_get_currentQty:
  assumes "positive_entries m" "Map_wf m"
  shows "Map_get m name = (if currentQty m name = 0 then None else Some (currentQty m name))"
proof (cases "Map_get m name")
  case None
  then show ?thesis by (simp add: currentQty_def)
next
  case (Some q)
  then have "name \<in> fst ` set m"
    using Map_get_None_iff [of m name] by simp
  with assms have "0 < currentQty m name"
    by (simp add: positive_entries_present)
  with Some show ?thesis by (simp add: currentQty_def)
qed

section \<open>C1: a sequence of adjustments\<close>

text \<open>
  Claim C1 says that after any sequence of \<open>adjust(id, delta)\<close> calls on an empty ledger the
  quantity of \<open>id\<close> is \<open>max(0, sum of the deltas for id)\<close>. The code cuts off at zero after
  every call, not once at the end, so a decrement of an absent entry is forgotten: after
  \<open>adjust(Ramen, -1)\<close> and \<open>adjust(Ramen, 1)\<close> the ledger holds one Ramen, while the sum of
  the deltas is 0.
\<close>

theorem adjust_sum_counterexample:
  "Map_get (updateOrders [(''Ramen'', -1), (''Ramen'', 1)] []) ''Ramen'' = Some 1
   \<and> max 0 (sum_list (deltas_for ''Ramen'' [(''Ramen'', -1), (''Ramen'', 1)])) = 0"
  by (simp add: updateOrder_def currentQty_def Map_get_def Map_delete_def deltas_for_def)

text \<open>
  C1 as amended: after any sequence of calls on an empty ledger, the quantity of \<open>id\<close> is the
  running sum of its deltas cut off at zero after every call; the entry is absent exactly
  when that value is 0; and the value is \<open>max(0, sum of the deltas)\<close> whenever the running
  sum never falls below zero.
\<close>

theorem adjust_sequence:
  "Map_get (updateOrders cs []) name =
     (if clamped_sum 0 (deltas_for name cs) = 0 then None
      else Some (clamped_sum 0 (deltas_for name cs)))
   \<and> (name \<notin> fst ` set (updateOrders cs []) \<longleftrightarrow> clamped_sum 0 (deltas_for name cs) = 0)
   \<and> (never_below_zero 0 (deltas_for name cs) \<longrightarrow>
        clamped_sum 0 (deltas_for name cs) = max 0 (sum_list (deltas_for name cs)))"
proof -
  let ?m = "updateOrders cs []"
  let ?c = "clamped_sum 0 (deltas_for name cs)"
  have inv: "Map_wf ?m" "positive_entries ?m"
    using updateOrders_invariants [of "[]" cs] by (simp_all add: Map_wf_def positive_entries_def)
  have q: "currentQty ?m name = ?c"
    using currentQty_updateOrders [of cs "[]" name] by (simp add: currentQty_def Map_get_def)
  have g: "Map_get ?m name = (if ?c = 0 then None else Some ?c)"
    using Map_get_currentQty [OF inv(2) inv(1), of name] q by simp
  have a: "name \<notin> fst ` set ?m \<longleftrightarrow> ?c = 0"
    using g Map_get_None_iff [of ?m name] by (simp split: if_splits)
  have n: "never_below_zero 0 (deltas_for name cs) \<longrightarrow> ?c = max 0 (sum_list (deltas_for name cs))"
    using clamped_sum_never_below [of 0 "deltas_for name cs"]
      never_below_zero_sum [of 0 "deltas_for name cs"] by (simp add: max_def)
  from g a n show ?thesis by blast
qed

theorem adjust_sequence_witness:
  "never_below_zero 0
     (deltas_for ''Ramen'' [(''Ramen'', 1), (''Gyoza'', 1), (''Ramen'', 1), (''Ramen'', -1)])
   \<and> Map_get (updateOrders [(''Ramen'', 1), (''Gyoza'', 1), (''Ramen'', 1), (''Ramen'', -1)] [])
        ''Ramen'' = Some 1
   \<and> max 0 (sum_list
        (deltas_for ''Ramen'' [(''Ramen'', 1), (''Gyoza'', 1), (''Ramen'', 1), (''Ramen'', -1)])) = 1"
  using adjust_sequence [of "[(''Ramen'', 1), (''Gyoza'', 1), (''Ramen'', 1), (''Ramen'', -1)]" "''Ramen''"]
  by (simp add: deltas_for_def)

section \<open>C10: what an adjustment leaves alone\<close>

text \<open>
  Claim C10: for every ledger, identity \<open>id\<close> and delta, \<open>adjust(id, delta)\<close> leaves the
  quantity of every other identity as it was (present with the same quantity, or absent),
  and changes neither the catalog nor the restaurant's name and location.
\<close>

theorem handleUpdateOrder_frame:
  "(other \<noteq> name \<longrightarrow>
      Map_get (order (handleUpdateOrder name delta st)) other = Map_get (order st) other)
   \<and> menuItems (handleUpdateOrder name delta st) = menuItems st
   \<and> restaurantName (handleUpdateOrder name delta st) = restaurantName st
   \<and> restaurantLocation (handleUpdateOrder name delta st) = restaurantLocation st"
  by (simp add: handleUpdateOrder_def Map_get_updateOrder_other)

theorem handleUpdateOrder_frame_witness:
  "''Gyoza'' \<noteq> ''Ramen''
   \<and> Map_get (order (handleUpdateOrder ''Ramen'' (-1)
        ((initial None)\<lparr>order := [(''Ramen'', 1), (''Gyoza'', 2)]\<rparr>))) ''Gyoza'' = Some 2
   \<and> Map_get (order (handleUpdateOrder ''Ramen'' (-1)
        ((initial None)\<lparr>order := [(''Ramen'', 1), (''Gyoza'', 2)]\<rparr>))) ''Ramen'' = None"
  using handleUpdateOrder_frame [of "''Gyoza''" "''Ramen''" "-1"
      "(initial None)\<lparr>order := [(''Ramen'', 1), (''Gyoza'', 2)]\<rparr>"]
  by (simp add: initial_def handleUpdateOrder_def updateOrder_def currentQty_def Map_get_def
      Map_delete_def)

section \<open>Facts about the order summary\<close>

lemma cartItems_Nil: "cartItems [] items = []"
  by (simp add: cartItems_def)

lemma cartItems_Cons:
  "cartItems (e # ord) items =
     (case resolve items (fst e) of
        None \<Rightarrow> cartItems ord items
      | Some it \<Rightarrow> (Some it, snd e, fst e) # cartItems ord items)"
  by (simp add: cartItems_def resolve_def split: option.splits)

lemma cartItems_names: "i \<in> set (cartItems ord items) \<Longrightarrow> resolve items (snd (snd i)) \<noteq> None"
  by (induction ord) (auto simp: cartItems_Nil cartItems_Cons split: option.splits)

lemma cartItems_delete_orphan:
  "resolve items name = None \<Longrightarrow> cartItems (Map_delete name ord) items = cartItems ord items"
  by (induction ord) (auto simp: cartItems_Nil cartItems_Cons Map_delete_def split: option.splits)

lemma totalItems_sum: "totalItems ord = sum_list (map snd ord)"
proof -
  have "foldl (\<lambda>a b. a + b) a xs = a + sum_list xs" for a :: int and xs
    by (induction xs arbitrary: a) simp_all
  then show ?thesis by (simp add: totalItems_def)
qed

lemma sum_delete_absent:
  "name \<notin> fst ` set ord \<Longrightarrow> Map_delete name ord = ord"
  by (induction ord) (auto simp: Map_delete_def)

lemma totalItems_delete:
  "Map_wf ord \<Longrightarrow> (name, q) \<in> set ord \<Longrightarrow> totalItems ord = totalItems (Map_delete name ord) + q"
proof (induction ord)
  case Nil
  then show ?case by simp
next
  case (Cons e ord)
  show ?case
  proof (cases "fst e = name")
    case True
    with Cons.prems have "name \<notin> fst ` set ord" by (auto simp: Map_wf_def)
    then have d: "Map_delete name ord = ord" by (rule sum_delete_absent)
    from True Cons.prems \<open>name \<notin> fst ` set ord\<close> have "e = (name, q)"
      by (cases e) force
    with d show ?thesis by (simp add: totalItems_sum Map_delete_def)
  next
    case False
    with Cons.prems have "(name, q) \<in> set ord" "Map_wf ord" by (auto simp: Map_wf_def)
    with Cons.IH have "totalItems ord = totalItems (Map_delete name ord) + q" by simp
    with False show ?thesis by (simp add: totalItems_sum Map_delete_def)
  qed
qed

lemma foldl_cartTotal_step:
  "foldl cartTotal_step a (cartItems ord items) = a + sum_list (map (entry_price items) ord)"
proof (induction ord arbitrary: a)
  case Nil
  then show ?case by (simp add: cartItems_Nil)
next
  case (Cons e ord)
  show ?case
  proof (cases "resolve items (fst e)")
    case None
    then show ?thesis
      using Cons [of a] by (simp add: cartItems_Cons entry_price_def)
  next
    case (Some it)
    show ?thesis
    proof (cases "price it")
      case None
      with Some show ?thesis
        using Cons [of a] by (simp add: cartItems_Cons entry_price_def cartTotal_step_def)
    next
      case (Some p)
      have empty: "price_of [] = 0" by (simp add: price_of_def)
      from Some \<open>resolve items (fst e) = Some it\<close> show ?thesis
        using Cons [of "cartTotal_step a (Some it, snd e, fst e)"] empty
        by (simp add: cartItems_Cons entry_price_def cartTotal_step_def add.assoc)
    qed
  qed
qed

lemma regex_match_skip:
  "list_all (\<lambda>c. \<not> is_digit c) pre \<Longrightarrow> regex_match (pre @ s) = regex_match s"
  by (induction pre) simp_all

lemma regex_match_None: "list_all (\<lambda>c. \<not> is_digit c) p \<Longrightarrow> regex_match p = None"
  using regex_match_skip [of p "[]"] by simp

lemma takeWhile_digits:
  "list_all is_digit ds \<Longrightarrow> \<not> starts_with is_digit rest \<Longrightarrow> takeWhile is_digit (ds @ rest) = ds"
  by (induction ds) (auto simp: starts_with_def split: list.splits)

lemma dropWhile_digits:
  "list_all is_digit ds \<Longrightarrow> \<not> starts_with is_digit rest \<Longrightarrow> dropWhile is_digit (ds @ rest) = rest"
  by (induction ds) (auto simp: starts_with_def split: list.splits)

lemma dot_not_digit: "\<not> is_digit CHR ''.''"
  by (simp add: is_digit_def)

lemma regex_match_digits:
  assumes "ds \<noteq> []" "list_all is_digit ds" "\<not> starts_with is_digit rest"
  shows "regex_match (ds @ rest) =
           Some (case rest of [] \<Rightarrow> ds
                 | d # r \<Rightarrow> if d = CHR ''.'' then ds @ ''.'' @ takeWhile is_digit r else ds)"
proof -
  from assms(1) obtain c cs where ds: "ds = c # cs" by (cases ds) auto
  with assms(2) have c: "is_digit c" by simp
  have tw: "takeWhile is_digit (c # cs @ rest) = ds"
    using takeWhile_digits [OF assms(2,3)] by (simp only: ds append_Cons)
  have dw: "dropWhile is_digit (c # cs @ rest) = rest"
    using dropWhile_digits [OF assms(2,3)] by (simp only: ds append_Cons)
  have "regex_match (c # cs @ rest) =
          Some (case dropWhile is_digit (c # cs @ rest) of
                  [] \<Rightarrow> takeWhile is_digit (c # cs @ rest)
                | d # r \<Rightarrow> if d = CHR ''.''
                           then takeWhile is_digit (c # cs @ rest) @ ''.'' @ takeWhile is_digit r
                           else takeWhile is_digit (c # cs @ rest))"
    using c by (simp only: regex_match.simps if_True)
  then show ?thesis
    by (simp only: tw dw ds append_Cons)
qed

lemma parseFloat_int:
  assumes "list_all is_digit ds"
  shows "parseFloat ds = real (digits_val ds)"
proof -
  have "\<not> starts_with is_digit []" by (simp add: starts_with_def)
  then have tw: "takeWhile is_digit ds = ds" and dw: "dropWhile is_digit ds = []"
    using takeWhile_digits [OF assms, of "[]"] dropWhile_digits [OF assms, of "[]"] by simp_all
  show ?thesis by (simp add: parseFloat_def Let_def tw dw digits_val_def)
qed

lemma parseFloat_frac:
  assumes "list_all is_digit ds" "list_all is_digit fs"
  shows "parseFloat (ds @ CHR ''.'' # fs) =
           real (digits_val ds) + real (digits_val fs) / 10 ^ length fs"
proof -
  have "\<not> starts_with is_digit (CHR ''.'' # fs)" by (simp add: starts_with_def dot_not_digit)
  then have tw: "takeWhile is_digit (ds @ CHR ''.'' # fs) = ds"
    and dw: "dropWhile is_digit (ds @ CHR ''.'' # fs) = CHR ''.'' # fs"
    using takeWhile_digits [OF assms(1)] dropWhile_digits [OF assms(1)] by blast+
  have "\<not> starts_with is_digit []" by (simp add: starts_with_def)
  then have fs: "takeWhile is_digit fs = fs"
    using takeWhile_digits [OF assms(2), of "[]"] by simp
  show ?thesis by (simp add: parseFloat_def Let_def tw dw fs)
qed

lemma price_of_whole:
  assumes "list_all (\<lambda>c. \<not> is_digit c) pre" "ds \<noteq> []" "list_all is_digit ds"
    "\<not> starts_with is_digit rest" "\<not> starts_with (\<lambda>c. c = CHR ''.'') rest"
  shows "price_of (pre @ ds @ rest) = real (digits_val ds)"
proof -
  have "regex_match (pre @ ds @ rest) = Some ds"
    using regex_match_skip [OF assms(1)] regex_match_digits [OF assms(2,3,4)] assms(5)
    by (simp add: starts_with_def split: list.splits)
  then show ?thesis by (simp add: price_of_def parseFloat_int [OF assms(3)])
qed

lemma price_of_fraction:
  assumes "list_all (\<lambda>c. \<not> is_digit c) pre" "ds \<noteq> []" "list_all is_digit ds"
    "list_all is_digit fs" "\<not> starts_with is_digit rest"
  shows "price_of (pre @ ds @ CHR ''.'' # fs @ rest) =
           real (digits_val ds) + real (digits_val fs) / 10 ^ length fs"
proof -
  have "\<not> starts_with is_digit (CHR ''.'' # fs @ rest)"
    by (simp add: starts_with_def dot_not_digit)
  then have "regex_match (ds @ CHR ''.'' # fs @ rest) =
               Some (ds @ ''.'' @ takeWhile is_digit (fs @ rest))"
    using regex_match_digits [OF assms(2,3), of "CHR ''.'' # fs @ rest"] by simp
  moreover have "takeWhile is_digit (fs @ rest) = fs"
    using takeWhile_digits [OF assms(4,5)] .
  ultimately have "regex_match (pre @ ds @ CHR ''.'' # fs @ rest) = Some (ds @ CHR ''.'' # fs)"
    using regex_match_skip [OF assms(1), of "ds @ CHR ''.'' # fs @ rest"] by simp
  then show ?thesis
    using parseFloat_frac [OF assms(3,4)] by (simp add: price_of_def)
qed

lemma digits_val_snoc: "digits_val (ds @ [c]) = 10 * digits_val ds + digit_val c"
  by (simp add: digits_val_def)

lemma price_examples:
  "price_of ''$12.50'' = 25 / 2" "price_of ''EUR 3'' = 3" "price_of ''market price'' = 0"
  by (simp_all add: price_of_def is_digit_def parseFloat_def digits_val_def digit_val_def)

lemma first_resolved_Nil: "first_resolved [] items = None"
  by (simp add: first_resolved_def)

lemma first_resolved_Cons:
  "first_resolved (e # ord) items =
     (case resolve items (fst e) of None \<Rightarrow> first_resolved ord items | Some it \<Rightarrow> Some it)"
  by (simp add: first_resolved_def split: option.splits)

lemma cartItems_head:
  "(case cartItems ord items of [] \<Rightarrow> None | i # _ \<Rightarrow> fst i) = first_resolved ord items"
  by (induction ord)
     (simp_all add: cartItems_Nil cartItems_Cons first_resolved_Nil first_resolved_Cons
       split: option.splits)

lemma cartItems_no_undefined: "i \<in> set (cartItems ord items) \<Longrightarrow> fst i \<noteq> None"
  by (simp add: cartItems_def)

lemma displayed_first_price:
  "first_resolved ord items = Some it \<Longrightarrow> price it = Some p \<Longrightarrow> p \<noteq> [] \<Longrightarrow>
   first_price (List.map_filter fst (cartItems ord items)) = Some p"
proof (induction ord)
  case Nil
  then show ?case by (simp add: first_resolved_Nil)
next
  case (Cons e ord)
  then show ?case
    by (cases "resolve items (fst e)")
       (simp_all add: first_resolved_Cons cartItems_Cons)
qed

lemma currencySymbol_cases:
  "currencySymbol (cartItems ord items) =
     (case first_resolved ord items of
        None \<Rightarrow> ''$''
      | Some it \<Rightarrow>
          (case price it of
             None \<Rightarrow> ''$''
           | Some p \<Rightarrow> if strip_price p = [] then ''$'' else strip_price p))"
proof (cases "cartItems ord items")
  case Nil
  with cartItems_head [of ord items] show ?thesis by (simp add: currencySymbol_def)
next
  case (Cons i cart)
  with cartItems_head [of ord items] have "first_resolved ord items = fst i" by simp
  with Cons show ?thesis by (simp add: currencySymbol_def split: option.splits)
qed

lemma currencySymbol_App_first_price:
  "currencySymbol_App items =
     (case first_price items of
        None \<Rightarrow> ''$''
      | Some p \<Rightarrow> if strip_price p = [] then ''$'' else strip_price p)"
proof (induction items)
  case Nil
  then show ?case by (simp add: currencySymbol_App_def)
next
  case (Cons m ms)
  show ?case
  proof (cases "has_price m")
    case True
    then show ?thesis
      by (auto simp: currencySymbol_App_def has_price_def split: option.splits)
  next
    case False
    then have "currencySymbol_App (m # ms) = currencySymbol_App ms"
      by (simp add: currencySymbol_App_def)
    moreover from False have "first_price (m # ms) = first_price ms"
      by (simp add: has_price_def split: option.splits)
    ultimately show ?thesis using Cons by simp
  qed
qed

section \<open>C3: an orphaned ledger entry\<close>

text \<open>
  Claim C3: for every ledger and catalog, an entry whose identity resolves to no dish of the
  catalog is not in the display list \<open>cartItems\<close> and adds nothing to the total price (both
  are what they would be without the entry), while its quantity is counted in
  \<open>totalItems\<close>.
\<close>

theorem orphan_entry:
  assumes "(name, q) \<in> set ord" and "Map_wf ord" and "resolve items name = None"
  shows "name \<notin> (\<lambda>i. snd (snd i)) ` set (cartItems ord items)
         \<and> cartItems ord items = cartItems (Map_delete name ord) items
         \<and> cartTotal (cartItems ord items) = cartTotal (cartItems (Map_delete name ord) items)
         \<and> totalItems ord = totalItems (Map_delete name ord) + q"
proof -
  have "name \<notin> (\<lambda>i. snd (snd i)) ` set (cartItems ord items)"
  proof
    assume "name \<in> (\<lambda>i. snd (snd i)) ` set (cartItems ord items)"
    then obtain i where "i \<in> set (cartItems ord items)" "snd (snd i) = name" by auto
    with cartItems_names [of i ord items] assms(3) show False by simp
  qed
  moreover have "cartItems ord items = cartItems (Map_delete name ord) items"
    using cartItems_delete_orphan [OF assms(3)] by simp
  moreover have "totalItems ord = totalItems (Map_delete name ord) + q"
    using totalItems_delete [OF assms(2) assms(1)] .
  ultimately show ?thesis by simp
qed

theorem orphan_entry_witness:
  "(''Ghost'', 3) \<in> set [(''Ramen'', 2), (''Ghost'', 3)]
   \<and> Map_wf [(''Ramen'', 2), (''Ghost'', 3 :: int)]
   \<and> resolve [ramen, gyoza] ''Ghost'' = None
   \<and> cartItems [(''Ramen'', 2), (''Ghost'', 3)] [ramen, gyoza] = [(Some ramen, 2, ''Ramen'')]
   \<and> cartTotal (cartItems [(''Ramen'', 2), (''Ghost'', 3)] [ramen, gyoza]) = 25
   \<and> cartTotal (cartItems (Map_delete ''Ghost'' [(''Ramen'', 2), (''Ghost'', 3)]) [ramen, gyoza]) = 25
   \<and> totalItems [(''Ramen'', 2), (''Ghost'', 3)] = 5"
proof -
  have h1: "(''Ghost'', 3) \<in> set [(''Ramen'', 2), (''Ghost'', 3 :: int)]" by simp
  have h2: "Map_wf [(''Ramen'', 2), (''Ghost'', 3 :: int)]" by (simp add: Map_wf_def)
  have h3: "resolve [ramen, gyoza] ''Ghost'' = None"
    by (simp add: resolve_def ramen_def gyoza_def)
  have c: "cartItems [(''Ramen'', 2), (''Ghost'', 3)] [ramen, gyoza] = [(Some ramen, 2, ''Ramen'')]"
    by (simp add: cartItems_def ramen_def gyoza_def)
  have p: "price_of ''$12.50'' = 25 / 2"
    by (simp add: price_of_def is_digit_def parseFloat_def digits_val_def digit_val_def)
  have t: "cartTotal [(Some ramen, 2, ''Ramen'')] = 25"
    by (simp add: cartTotal_def cartTotal_step_def ramen_def p)
  show ?thesis
    using orphan_entry [OF h1 h2 h3] h1 h2 h3 c t
    by (simp add: totalItems_def Map_delete_def)
qed

section \<open>C4: the total price\<close>

text \<open>
  Claim C4: for every ledger and catalog, \<open>cartTotal\<close> is the sum, over the entries whose dish
  resolves and has a price, of the extracted value times the quantity; entries whose dish is
  missing or has no price add nothing (\<open>totalPrice_spec\<close>). The extracted value is 0 when the
  price string has no digit; otherwise it is the value of the first run of digits, together
  with the dot and the digits that follow the run directly, if a dot does follow.
\<close>

theorem cartTotal_totalPrice:
  "cartTotal (cartItems ord items) = totalPrice_spec ord items
   \<and> (list_all (\<lambda>c. \<not> is_digit c) s \<longrightarrow> price_of s = 0)
   \<and> (list_all (\<lambda>c. \<not> is_digit c) pre \<and> ds \<noteq> [] \<and> list_all is_digit ds
        \<and> \<not> starts_with is_digit rest \<and> \<not> starts_with (\<lambda>c. c = CHR ''.'') rest \<longrightarrow>
        price_of (pre @ ds @ rest) = real (digits_val ds))
   \<and> (list_all (\<lambda>c. \<not> is_digit c) pre' \<and> ds' \<noteq> [] \<and> list_all is_digit ds'
        \<and> list_all is_digit fs \<and> \<not> starts_with is_digit rest' \<longrightarrow>
        price_of (pre' @ ds' @ CHR ''.'' # fs @ rest') =
          real (digits_val ds') + real (digits_val fs) / 10 ^ length fs)"
proof -
  have "cartTotal (cartItems ord items) = totalPrice_spec ord items"
    using foldl_cartTotal_step [of 0 ord items] by (simp add: cartTotal_def totalPrice_spec_def)
  moreover have "list_all (\<lambda>c. \<not> is_digit c) s \<longrightarrow> price_of s = 0"
    by (simp add: price_of_def regex_match_None)
  ultimately show ?thesis
    using price_of_whole [of pre ds rest] price_of_fraction [of pre' ds' fs rest']
    by blast
qed

theorem cartTotal_totalPrice_witness:
  "cartTotal (cartItems [(''Ramen'', 2), (''Ghost'', 3), (''Gyoza'', 1), (''Tea'', 4)]
      [ramen, gyoza, tea]) = 37
   \<and> list_all (\<lambda>c. \<not> is_digit c) ''market price''
   \<and> price_of ''market price'' = 0
   \<and> list_all (\<lambda>c. \<not> is_digit c) ''EUR '' \<and> ''3'' \<noteq> [] \<and> list_all is_digit ''3''
   \<and> \<not> starts_with is_digit '' each'' \<and> \<not> starts_with (\<lambda>c. c = CHR ''.'') '' each''
   \<and> price_of (''EUR '' @ ''3'' @ '' each'') = 3
   \<and> list_all (\<lambda>c. \<not> is_digit c) ''$'' \<and> ''12'' \<noteq> [] \<and> list_all is_digit ''12''
   \<and> list_all is_digit ''50'' \<and> \<not> starts_with is_digit ''.3''
   \<and> price_of (''$'' @ ''12'' @ CHR ''.'' # ''50'' @ ''.3'') = 25 / 2"
proof -
  note t = cartTotal_totalPrice [of "[(''Ramen'', 2), (''Ghost'', 3), (''Gyoza'', 1), (''Tea'', 4)]"
      "[ramen, gyoza, tea]" "''market price''" "''EUR ''" "''3''" "'' each''"
      "''$''" "''12''" "''50''" "''.3''"]
  have r: "resolve [ramen, gyoza, tea] ''Ghost'' = None"
    "resolve [ramen, gyoza, tea] ''Gyoza'' = Some gyoza"
    "resolve [ramen, gyoza, tea] ''Ramen'' = Some ramen"
    "resolve [ramen, gyoza, tea] ''Tea'' = Some tea"
    by (simp_all add: resolve_def ramen_def gyoza_def tea_def)
  have p: "price gyoza = None" "price ramen = Some ''$12.50''" "price tea = Some ''EUR 3''"
    by (simp_all add: ramen_def gyoza_def tea_def)
  have s: "totalPrice_spec [(''Ramen'', 2), (''Ghost'', 3), (''Gyoza'', 1), (''Tea'', 4)]
             [ramen, gyoza, tea] = 37"
    by (simp add: totalPrice_spec_def entry_price_def r p price_examples)
  have h1: "list_all (\<lambda>c. \<not> is_digit c) ''market price''"
    by (simp add: is_digit_def)
  have h2: "list_all (\<lambda>c. \<not> is_digit c) ''EUR '' \<and> ''3'' \<noteq> [] \<and> list_all is_digit ''3''
      \<and> \<not> starts_with is_digit '' each'' \<and> \<not> starts_with (\<lambda>c. c = CHR ''.'') '' each''"
    by (simp add: is_digit_def starts_with_def)
  have h3: "list_all (\<lambda>c. \<not> is_digit c) ''$'' \<and> ''12'' \<noteq> [] \<and> list_all is_digit ''12''
      \<and> list_all is_digit ''50'' \<and> \<not> starts_with is_digit ''.3''"
    by (simp add: is_digit_def starts_with_def)
  have v: "real (digits_val ''3'') = 3"
    "real (digits_val ''12'') + real (digits_val ''50'') / 10 ^ length ''50'' = 25 / 2"
    by (simp_all add: digits_val_def digit_val_def)
  from t s have c1: "cartTotal (cartItems [(''Ramen'', 2), (''Ghost'', 3), (''Gyoza'', 1), (''Tea'', 4)]
      [ramen, gyoza, tea]) = 37"
    by simp
  from t h1 have c2: "price_of ''market price'' = 0" by blast
  from t h2 have "price_of (''EUR '' @ ''3'' @ '' each'') = real (digits_val ''3'')" by blast
  with v(1) have c3: "price_of (''EUR '' @ ''3'' @ '' each'') = 3" by simp
  from t h3 have "price_of (''$'' @ ''12'' @ CHR ''.'' # ''50'' @ ''.3'') =
      real (digits_val ''12'') + real (digits_val ''50'') / 10 ^ length ''50''" by blast
  with v(2) have c4: "price_of (''$'' @ ''12'' @ CHR ''.'' # ''50'' @ ''.3'') = 25 / 2" by simp
  from c1 c2 c3 c4 h1 h2 h3 show ?thesis by blast
qed

section \<open>C7: the currency symbol\<close>

text \<open>
  Claim C7 says that the currency symbol is what is left of the price string of the first
  dish that has a price, once digits, dots and spaces are taken out. The code puts the
  dollar sign in its place when nothing is left (\<open>|| '$'\<close>): with the one dish Udon, priced
  \<open>12.50\<close>, in the catalog and in the order, nothing is left of the price string and the
  symbol is the dollar sign, in the order summary and in the order bar.
\<close>

theorem currencySymbol_fallback_counterexample:
  "first_price [udon] = Some ''12.50''
   \<and> first_price (List.map_filter fst (cartItems [(''Udon'', 1)] [udon])) = Some ''12.50''
   \<and> strip_price ''12.50'' = []
   \<and> currencySymbol (cartItems [(''Udon'', 1)] [udon]) = ''$''
   \<and> currencySymbol_App [udon] = ''$''"
  by (simp add: currencySymbol_def currencySymbol_App_def has_price_def cartItems_def udon_def
      strip_price_def is_digit_def)

text \<open>
  C7 as amended: the currency symbol is obtained from the first dish that has a price (a
  non-empty price string), as that price string without digits, dots and spaces, and is the
  dollar sign when nothing is left or no dish has a price. For the order bar
  (\<open>currencySymbol\<close> of \<open>src/src/App.tsx\<close>) the dish is the first dish of the catalog that has
  a price. For the order summary (\<open>OrderModal\<close>) this is stated for an empty display list,
  and for a display list whose first entry is a dish that has a price, which is then the
  first dish of the display list that has a price.
\<close>

theorem currencySymbol_first_priced:
  "currencySymbol_App catalog =
     (case first_price catalog of
        None \<Rightarrow> ''$''
      | Some p \<Rightarrow> if strip_price p = [] then ''$'' else strip_price p)
   \<and> (cartItems ord' items' = [] \<longrightarrow> currencySymbol (cartItems ord' items') = ''$'')
   \<and> (first_resolved ord items = Some it \<and> price it = Some p \<and> p \<noteq> [] \<longrightarrow>
        first_price (List.map_filter fst (cartItems ord items)) = Some p
        \<and> currencySymbol (cartItems ord items)
            = (if strip_price p = [] then ''$'' else strip_price p))"
  using displayed_first_price [of ord items it p] currencySymbol_cases [of ord items]
    currencySymbol_App_first_price [of catalog]
  by (auto simp: currencySymbol_def)

theorem currencySymbol_first_priced_witness:
  "currencySymbol_App [gyoza, tea, ramen] = ''EUR''
   \<and> cartItems [(''Ghost'', 1)] [ramen, gyoza, tea] = []
   \<and> currencySymbol (cartItems [(''Ghost'', 1)] [ramen, gyoza, tea]) = ''$''
   \<and> first_resolved [(''Ghost'', 1), (''Tea'', 1), (''Ramen'', 1)] [ramen, gyoza, tea] = Some tea
   \<and> price tea = Some ''EUR 3'' \<and> ''EUR 3'' \<noteq> []
   \<and> first_price (List.map_filter fst
        (cartItems [(''Ghost'', 1), (''Tea'', 1), (''Ramen'', 1)] [ramen, gyoza, tea])) = Some ''EUR 3''
   \<and> currencySymbol (cartItems [(''Ghost'', 1), (''Tea'', 1), (''Ramen'', 1)] [ramen, gyoza, tea])
        = ''EUR''"
proof -
  note t = currencySymbol_first_priced [of "[gyoza, tea, ramen]" "[(''Ghost'', 1)]"
      "[ramen, gyoza, tea]" "[(''Ghost'', 1), (''Tea'', 1), (''Ramen'', 1)]" "[ramen, gyoza, tea]"
      tea "''EUR 3''"]
  have h1: "cartItems [(''Ghost'', 1)] [ramen, gyoza, tea] = []"
    by (simp add: cartItems_def ramen_def gyoza_def tea_def)
  have h2: "first_resolved [(''Ghost'', 1), (''Tea'', 1), (''Ramen'', 1)] [ramen, gyoza, tea] = Some tea"
    by (simp add: first_resolved_def resolve_def ramen_def gyoza_def tea_def)
  have h3: "price tea = Some ''EUR 3'' \<and> ''EUR 3'' \<noteq> []" by (simp add: tea_def)
  have s: "strip_price ''EUR 3'' = ''EUR''" by (simp add: strip_price_def is_digit_def)
  have f: "first_price [gyoza, tea, ramen] = Some ''EUR 3''"
    by (simp add: gyoza_def tea_def)
  from t have "currencySymbol_App [gyoza, tea, ramen] =
      (case first_price [gyoza, tea, ramen] of
         None \<Rightarrow> ''$''
       | Some p \<Rightarrow> if strip_price p = [] then ''$'' else strip_price p)"
    by blast
  with f s have c0: "currencySymbol_App [gyoza, tea, ramen] = ''EUR''" by simp
  from t h1 have c1: "currencySymbol (cartItems [(''Ghost'', 1)] [ramen, gyoza, tea]) = ''$''"
    by blast
  from t h2 h3 have c2: "first_price (List.map_filter fst
        (cartItems [(''Ghost'', 1), (''Tea'', 1), (''Ramen'', 1)] [ramen, gyoza, tea])) = Some ''EUR 3''"
    by blast
  from t h2 h3 have "currencySymbol (cartItems [(''Ghost'', 1), (''Tea'', 1), (''Ramen'', 1)]
        [ramen, gyoza, tea]) = (if strip_price ''EUR 3'' = [] then ''$'' else strip_price ''EUR 3'')"
    by blast
  with s have c3: "currencySymbol (cartItems [(''Ghost'', 1), (''Tea'', 1), (''Ramen'', 1)]
        [ramen, gyoza, tea]) = ''EUR''"
    by simp
  from h1 h2 h3 c0 c1 c2 c3 show ?thesis by blast
qed

text \<open>
  The statement above leaves out the display lists whose first dish has no price. There
  \<open>OrderModal\<close> shows the dollar sign and does not look at the dishes that follow, while the
  order bar goes on to the first dish that has a price.
\<close>

lemma currencySymbol_unpriced_first:
  "currencySymbol (cartItems [(''Gyoza'', 1), (''Tea'', 1)] [gyoza, tea]) = ''$''
   \<and> first_price [gyoza, tea] = Some ''EUR 3''
   \<and> first_price (List.map_filter fst (cartItems [(''Gyoza'', 1), (''Tea'', 1)] [gyoza, tea]))
        = Some ''EUR 3''
   \<and> strip_price ''EUR 3'' = ''EUR''
   \<and> currencySymbol_App [gyoza, tea] = ''EUR''"
  by (simp add: currencySymbol_def currencySymbol_App_def has_price_def cartItems_def gyoza_def
      tea_def strip_price_def is_digit_def)

section \<open>C5: the bill splitter\<close>

text \<open>
  Claim C5: for every bill base (non-negative or not), tip percentage and requested party
  count, raised to 1 when below 1, the splitter computes the tip as base times percentage
  over 100, the grand total as base plus tip, and the three shares per person as the grand
  total, the base and the tip divided by the party count; for a party of one the share is
  base times (1 + percentage / 100); and for base 100, 18 percent and a party of four the
  tip is 18, the grand total 118 and the share 29.50.
\<close>

theorem bill_splitter:
  "billBase (Some b) = b
   \<and> tipAmount b t = b * t / 100
   \<and> finalTotal b t = b + b * t / 100
   \<and> splitBy n = (if n < 1 then 1 else n)
   \<and> perPersonTotal b t n = (b + b * t / 100) / real_of_int (splitBy n)
   \<and> perPersonBill b n = b / real_of_int (splitBy n)
   \<and> perPersonTip b t n = (b * t / 100) / real_of_int (splitBy n)
   \<and> perPersonTotal b t 1 = b * (1 + t / 100)
   \<and> tipAmount 100 18 = 18
   \<and> finalTotal 100 18 = 118
   \<and> perPersonTotal 100 18 4 = 29.5"
  by (simp add: billBase_def tipAmount_def finalTotal_def splitBy_def perPersonTotal_def
      perPersonBill_def perPersonTip_def max_def algebra_simps)

section \<open>C6: the filter verdicts\<close>

text \<open>
  Claim C6: for every dish and every state of the four filters, the card is dimmed exactly
  when the vegetarian filter is on and the dish is tagged neither Vegetarian nor Vegan; it
  is unsafe exactly when the nut filter is on and the dish contains nuts, or the pork filter
  is on and it contains pork; it is highlighted exactly when the spicy filter is on and the
  dish is tagged Spicy; at most one warning badge is shown, one is shown exactly when the
  dish is unsafe, and when both warnings hold the badge is the nut warning.
\<close>

theorem filter_verdicts:
  "isDimmed f dish = (vegetarian f \<and> \<not> (''Vegetarian'' \<in> tag_set dish \<or> ''Vegan'' \<in> tag_set dish))
   \<and> isUnsafe f dish = ((nutAllergy f \<and> ''Contains Nuts'' \<in> tag_set dish)
                        \<or> (noPork f \<and> ''Contains Pork'' \<in> tag_set dish))
   \<and> highlightSpicy f dish = (spicy f \<and> ''Spicy'' \<in> tag_set dish)
   \<and> length (warningBadges f dish) \<le> 1
   \<and> (warningBadges f dish \<noteq> [] \<longleftrightarrow> isUnsafe f dish)
   \<and> (nutAllergy f \<and> ''Contains Nuts'' \<in> tag_set dish \<and> noPork f \<and> ''Contains Pork'' \<in> tag_set dish
        \<longrightarrow> warningBadges f dish = [''CONTAINS NUTS''])"
  by (auto simp: isDimmed_def isUnsafe_def highlightSpicy_def warningBadges_def isVeg_def
      showNutWarning_def showPorkWarning_def hasNuts_def hasPork_def isSpicy_def hasTag_def
      tag_set_def split: option.splits)

theorem filter_verdicts_witness:
  "nutAllergy \<lparr>vegetarian = False, nutAllergy = True, noPork = True, spicy = False\<rparr>
   \<and> ''Contains Nuts'' \<in> tag_set satay
   \<and> noPork \<lparr>vegetarian = False, nutAllergy = True, noPork = True, spicy = False\<rparr>
   \<and> ''Contains Pork'' \<in> tag_set satay
   \<and> isUnsafe \<lparr>vegetarian = False, nutAllergy = True, noPork = True, spicy = False\<rparr> satay
   \<and> warningBadges \<lparr>vegetarian = False, nutAllergy = True, noPork = True, spicy = False\<rparr> satay
       = [''CONTAINS NUTS'']"
  using filter_verdicts [of "\<lparr>vegetarian = False, nutAllergy = True, noPork = True, spicy = False\<rparr>" satay]
  by (simp add: tag_set_def satay_def)

section \<open>Facts about loading and saving\<close>

lemma slot_load_try: "slot (fst (load_try P saved st)) = slot st"
  by (simp add: load_try_def Let_def split: option.splits sum.splits)



lemma load_effect_slot:
  assumes "load_effect P st = Inr st'"
  shows "slot st' = slot st \<or> slot st' = None"
proof (cases "slot st")
  case None
  with assms show ?thesis by (simp add: load_effect_def)
next
  case (Some saved)
  show ?thesis
  proof (cases "saved = []")
    case True
    with Some assms show ?thesis by (simp add: load_effect_def)
  next
    case False
    obtain s e where t: "load_try P saved st = (s, e)" by (cases "load_try P saved st")
    with slot_load_try [of P saved st] have "slot s = slot st" by simp
    with Some False t assms show ?thesis
      by (cases e) (auto simp: load_effect_def)
  qed
qed




lemma load_effect_no_menu:
  assumes "slot st = Some c" "c \<noteq> []" "P c = Some v" "v \<noteq> JNull" "v \<noteq> JUndefined" "\<not> has_menu v"
  shows "load_effect P st = Inr st"
proof -
  from assms(4,5) obtain mi where mi: "js_prop v ''menuItems'' = Inr mi"
    by (cases v) simp_all
  have "load_try P c st = (st, None)"
  proof (cases "opt_length mi")
    case (Inl e)
    then show ?thesis
      by (cases mi) (simp_all add: opt_length_def)
  next
    case (Inr len)
    with assms(6) mi have "\<not> js_truthy len" by (simp add: has_menu_def)
    with Inr mi assms(3) show ?thesis by (simp add: load_try_def)
  qed
  with assms(1,2) show ?thesis by (simp add: load_effect_def)
qed










lemma Map_set_rt_fresh:
  "list_all (\<lambda>e. \<not> same_value_zero (fst e) k) m \<Longrightarrow> Map_set_rt k v m = m @ [(k, v)]"
  by (induction m) simp_all

lemma entry_of_js_entry: "entry_of (js_entry e) = Inr (rt_entry e)"
  by (simp add: js_entry_def rt_entry_def)

lemma Map_add_entries_distinct:
  assumes "distinct (map fst xs)"
    and "\<forall>e \<in> set acc. \<forall>x \<in> set xs. fst e \<noteq> JStr (fst x)"
  shows "Map_add_entries (map js_entry xs) acc = Inr (acc @ map rt_entry xs)"
  using assms
proof (induction xs arbitrary: acc)
  case Nil
  then show ?case by simp
next
  case (Cons x xs)
  have fresh: "list_all (\<lambda>e. \<not> same_value_zero (fst e) (JStr (fst x))) acc"
    using Cons.prems(2) by (auto simp: list_all_iff same_value_zero_def)
  have step: "Map_set_rt (JStr (fst x)) (JNum (real_of_int (snd x))) acc = acc @ [rt_entry x]"
    using Map_set_rt_fresh [OF fresh] by (simp add: rt_entry_def)
  have "\<forall>e \<in> set (acc @ [rt_entry x]). \<forall>y \<in> set xs. fst e \<noteq> JStr (fst y)"
    using Cons.prems by (auto simp: rt_entry_def)
  moreover from Cons.prems(1) have "distinct (map fst xs)" by simp
  ultimately have "Map_add_entries (map js_entry xs) (acc @ [rt_entry x])
      = Inr ((acc @ [rt_entry x]) @ map rt_entry xs)"
    by (rule Cons.IH [rotated])
  with step show ?case by (simp add: entry_of_js_entry rt_entry_def)
qed

lemma new_Map_entries:
  "Map_wf ord \<Longrightarrow> new_Map (JArr (map js_entry ord)) = Inr (map rt_entry ord)"
  using Map_add_entries_distinct [of ord "[]"] by (simp add: new_Map_def Map_wf_def)

lemma js_MenuItem_inj: "js_MenuItem a = js_MenuItem b \<Longrightarrow> a = b"
  by (cases a; cases b)
     (auto simp: js_MenuItem_def inj_on_def split: option.splits dest: map_inj_on [rotated])

lemma runtime_of_inj: "runtime_of a = runtime_of b \<Longrightarrow> a = b"
proof -
  assume eq: "runtime_of a = runtime_of b"
  have "inj js_MenuItem" by (rule injI) (rule js_MenuItem_inj)
  then have m: "menuItems a = menuItems b"
    using eq by (auto simp: runtime_of_def dest: inj_mapD [THEN injD])
  have "inj rt_entry"
    by (rule injI) (auto simp: rt_entry_def prod_eq_iff)
  then have o: "order a = order b"
    using eq by (auto simp: runtime_of_def dest: inj_mapD [THEN injD])
  from eq m o show ?thesis
    by (cases a; cases b) (simp add: runtime_of_def)
qed

lemma load_try_saved:
  assumes "menuItems st \<noteq> []" and "Map_wf (order st)"
    and "P t = Some (snapshot_json st)"
  shows "load_try P t (runtime_of (initial (Some t)))
           = ((runtime_of st)\<lparr>appState := MENU_VIEW, slot := Some t\<rparr>, None)"
proof -
  have items: "js_prop (snapshot_json st) ''menuItems'' = Inr (JArr (map js_MenuItem (menuItems st)))"
    and rn: "js_prop (snapshot_json st) ''restaurantName'' = Inr (JStr (restaurantName st))"
    and rl: "js_prop (snapshot_json st) ''restaurantLocation'' = Inr (JStr (restaurantLocation st))"
    and ord: "js_prop (snapshot_json st) ''order'' = Inr (JArr (map js_entry (order st)))"
    by (simp_all add: snapshot_json_def own_property_def)
  have len: "opt_length (JArr (map js_MenuItem (menuItems st)))
               = Inr (JNum (real (length (menuItems st))))"
    by (simp add: opt_length_def)
  have names: "js_or (JStr (restaurantName st)) (JStr []) = JStr (restaurantName st)"
    "js_or (JStr (restaurantLocation st)) (JStr []) = JStr (restaurantLocation st)"
    by (simp_all add: js_or_def)
  have m: "new_Map (JArr (map js_entry (order st))) = Inr (map rt_entry (order st))"
    using assms(2) by (rule new_Map_entries)
  show ?thesis
    using assms(1)
    by (simp add: load_try_def assms(3) items rn rl ord len names m runtime_of_def initial_def)
qed

lemma runtime_of_update:
  "(runtime_of st)\<lparr>appState := a, slot := x\<rparr> = runtime_of (st\<lparr>appState := a, slot := x\<rparr>)"
  by (simp add: runtime_of_def)

lemma reachable_restored:
  assumes "menuItems st \<noteq> []" and "Map_wf (order st)"
    and "P (S (snapshot_json st)) = Some (snapshot_json st)" and "S (snapshot_json st) \<noteq> []"
  shows "reachable P S (Some (S (snapshot_json st)))
           (st\<lparr>appState := MENU_VIEW, slot := Some (S (snapshot_json st))\<rparr>)"
proof -
  let ?t = "S (snapshot_json st)"
  let ?st = "st\<lparr>appState := MENU_VIEW, slot := Some ?t\<rparr>"
  have "load_try P ?t (runtime_of (initial (Some ?t))) = (runtime_of ?st, None)"
    using load_try_saved [of st P ?t, OF assms(1,2,3)] by (simp add: runtime_of_update)
  then have "load_effect P (runtime_of (initial (Some ?t))) = Inr (runtime_of ?st)"
    using assms(4) by (simp add: load_effect_def runtime_of_def initial_def)
  then have "reachable P S (Some ?t) (save_effect S ?st)"
    by (rule reachable.mounted)
  moreover have "save_effect S ?st = ?st"
    using assms(1) by (simp add: save_effect_def snapshot_json_def)
  ultimately show ?thesis by simp
qed

lemma slot_handle: "slot (handle ev st) = slot st \<or> slot (handle ev st) = None"
  by (cases ev) (simp_all add: handleUpdateOrder_def)

lemma slot_save_effect:
  "slot (save_effect S st) = slot st
   \<or> (menuItems st \<noteq> [] \<and> slot (save_effect S st) = Some (S (snapshot_json st)))"
  by (simp add: save_effect_def)

lemma slot_runtime_of: "slot (runtime_of st) = slot st"
  by (simp add: runtime_of_def)

lemma snapshot_json_slot: "snapshot_json (st\<lparr>slot := x\<rparr>) = snapshot_json st"
  by (simp add: snapshot_json_def)

lemma slot_step:
  "slot (step S ev st) = slot st \<or> slot (step S ev st) = None
   \<or> (menuItems (step S ev st) \<noteq> []
       \<and> slot (step S ev st) = Some (S (snapshot_json (step S ev st))))"
proof (cases "deps_changed ev st \<and> menuItems (handle ev st) \<noteq> []")
  case True
  then have "step S ev st = (handle ev st)\<lparr>slot := Some (S (snapshot_json (handle ev st)))\<rparr>"
    by (simp add: step_def save_effect_def)
  with True show ?thesis by (simp add: snapshot_json_slot)
next
  case False
  then have "step S ev st = handle ev st"
    by (auto simp: step_def save_effect_def)
  with slot_handle [of ev st] show ?thesis by auto
qed

lemma reachable_run: "reachable P S c st \<Longrightarrow> reachable P S c (run S evs st)"
  by (induction evs arbitrary: st) (simp_all add: reachable.stepped)

lemma reachable_fresh: "reachable P S None (initial None)"
proof -
  have "load_effect P (runtime_of (initial None)) = Inr (runtime_of (initial None))"
    by (simp add: load_effect_def runtime_of_def initial_def)
  then have "reachable P S None (save_effect S (initial None))"
    by (rule reachable.mounted)
  then show ?thesis by (simp add: save_effect_def initial_def)
qed

lemma session_run:
  "run (stringify_table [(snapshot_json session, session_text)])
        [FileSelected, MenuParsed [ramen, gyoza] ''Sakura'', RestaurantSaved ''Sakura'' ''Kyoto'',
         UpdateOrder ''Ramen'' 1, UpdateOrder ''Ramen'' 1, UpdateOrder ''Gyoza'' 1]
        (initial None)
   = session\<lparr>slot := Some session_text\<rparr>"
  by (simp add: step_def save_effect_def initial_def session_def handleUpdateOrder_def
      updateOrder_def currentQty_def Map_get_def Map_delete_def stringify_table_def
      snapshot_json_def js_entry_def ramen_def gyoza_def js_MenuItem_def)

section \<open>C8: loading never throws; what it does on bad content\<close>




section \<open>C2: saving and loading back\<close>

text \<open>
  Claim C2: for every state with a non-empty dish list, after the save effect has written the
  slot, the load effect of a fresh page installs the same dishes, restaurant name and
  location, and the same ledger with its entries in the same order, and shows the menu. The
  platform's pair of \<open>JSON.stringify\<close> and \<open>JSON.parse\<close> is assumed to give the saved value
  back from a non-empty text; the ledger is a \<open>Map\<close> (each key once). \<open>runtime_of\<close> is
  injective, so equal run-time states are equal states.
\<close>

theorem save_load_roundtrip:
  assumes "menuItems st \<noteq> []" and "Map_wf (order st)"
    and "P (S (snapshot_json st)) = Some (snapshot_json st)" and "S (snapshot_json st) \<noteq> []"
  shows "load_effect P (runtime_of (initial (slot (save_effect S st))))
           = Inr ((runtime_of st)\<lparr>appState := MENU_VIEW, slot := Some (S (snapshot_json st))\<rparr>)"
proof -
  let ?t = "S (snapshot_json st)"
  have saved: "slot (save_effect S st) = Some ?t"
    using assms(1) by (simp add: save_effect_def)
  have "load_try P ?t (runtime_of (initial (Some ?t)))
          = ((runtime_of st)\<lparr>appState := MENU_VIEW, slot := Some ?t\<rparr>, None)"
    using assms(1,2,3) by (rule load_try_saved [of st P ?t])
  then show ?thesis
    using assms(4) by (simp add: load_effect_def saved runtime_of_def initial_def)
qed

theorem save_load_roundtrip_witness:
  "menuItems session \<noteq> []
   \<and> Map_wf (order session)
   \<and> parse_table [(session_text, snapshot_json session)]
        (stringify_table [(snapshot_json session, session_text)] (snapshot_json session))
        = Some (snapshot_json session)
   \<and> stringify_table [(snapshot_json session, session_text)] (snapshot_json session) \<noteq> []
   \<and> load_effect (parse_table [(session_text, snapshot_json session)])
        (runtime_of (initial (slot (save_effect
           (stringify_table [(snapshot_json session, session_text)]) session))))
        = Inr ((runtime_of session)\<lparr>appState := MENU_VIEW, slot := Some session_text\<rparr>)
   \<and> order (runtime_of session) = [(JStr ''Ramen'', JNum 2), (JStr ''Gyoza'', JNum 1)]"
proof -
  have h1: "menuItems session \<noteq> []" by (simp add: session_def)
  have h2: "Map_wf (order session)" by (simp add: session_def Map_wf_def)
  have s: "stringify_table [(snapshot_json session, session_text)] (snapshot_json session)
             = session_text"
    by (simp add: stringify_table_def)
  have h3: "parse_table [(session_text, snapshot_json session)]
        (stringify_table [(snapshot_json session, session_text)] (snapshot_json session))
        = Some (snapshot_json session)"
    by (simp add: s parse_table_def)
  have h4: "stringify_table [(snapshot_json session, session_text)] (snapshot_json session) \<noteq> []"
    by (simp only: s) (simp add: session_text_def)
  have o: "order (runtime_of session) = [(JStr ''Ramen'', JNum 2), (JStr ''Gyoza'', JNum 1)]"
    by (simp add: runtime_of_def session_def rt_entry_def)
  note t = save_load_roundtrip [of session "parse_table [(session_text, snapshot_json session)]"
      "stringify_table [(snapshot_json session, session_text)]", OF h1 h2 h3 h4]
  from t h1 h2 h3 h4 o show ?thesis
    by (simp only: s simp_thms)
qed

section \<open>C9: an empty catalog is never persisted\<close>

text \<open>
  Claim C9: in every reachable state, whatever the application has written to the slot was
  written from a state with a non-empty dish list: the slot holds what it held when the
  session began, or nothing, or the serialised snapshot of a state whose dish list is not
  empty; and every event from there leaves the slot as it is, erases it, or writes the
  snapshot of the new state, whose dish list is then not empty.
\<close>

theorem empty_catalog_never_persisted:
  assumes "reachable P S c st"
  shows "(slot st = c \<or> slot st = None
          \<or> (\<exists>st'. menuItems st' \<noteq> [] \<and> slot st = Some (S (snapshot_json st'))))
         \<and> (slot (step S ev st) = slot st \<or> slot (step S ev st) = None
            \<or> (menuItems (step S ev st) \<noteq> []
                \<and> slot (step S ev st) = Some (S (snapshot_json (step S ev st)))))"
proof
  show "slot st = c \<or> slot st = None
        \<or> (\<exists>st'. menuItems st' \<noteq> [] \<and> slot st = Some (S (snapshot_json st')))"
    using assms
  proof (induction rule: reachable.induct)
    case (mounted st)
    from load_effect_slot [OF mounted]
    have "slot st = c \<or> slot st = None"
      by (simp add: slot_runtime_of initial_def)
    with slot_save_effect [of S st] show ?case by metis
  next
    case (stepped st ev)
    from slot_step [of S ev st] stepped.IH show ?case by metis
  qed
  show "slot (step S ev st) = slot st \<or> slot (step S ev st) = None
        \<or> (menuItems (step S ev st) \<noteq> []
            \<and> slot (step S ev st) = Some (S (snapshot_json (step S ev st))))"
    by (rule slot_step)
qed

theorem empty_catalog_never_persisted_witness:
  "reachable (parse_table []) (stringify_table [(snapshot_json session, session_text)]) None
     (run (stringify_table [(snapshot_json session, session_text)])
        [FileSelected, MenuParsed [ramen, gyoza] ''Sakura'', RestaurantSaved ''Sakura'' ''Kyoto'',
         UpdateOrder ''Ramen'' 1, UpdateOrder ''Ramen'' 1, UpdateOrder ''Gyoza'' 1]
        (initial None))
   \<and> slot (run (stringify_table [(snapshot_json session, session_text)])
        [FileSelected, MenuParsed [ramen, gyoza] ''Sakura'', RestaurantSaved ''Sakura'' ''Kyoto'',
         UpdateOrder ''Ramen'' 1, UpdateOrder ''Ramen'' 1, UpdateOrder ''Gyoza'' 1]
        (initial None)) = Some session_text
   \<and> session_text = stringify_table [(snapshot_json session, session_text)] (snapshot_json session)
   \<and> menuItems session \<noteq> []
   \<and> slot (step (stringify_table [(snapshot_json session, session_text)]) NewScan
        (run (stringify_table [(snapshot_json session, session_text)])
          [FileSelected, MenuParsed [ramen, gyoza] ''Sakura'', RestaurantSaved ''Sakura'' ''Kyoto'',
           UpdateOrder ''Ramen'' 1, UpdateOrder ''Ramen'' 1, UpdateOrder ''Gyoza'' 1]
          (initial None))) = None"
proof -
  let ?S = "stringify_table [(snapshot_json session, session_text)]"
  let ?evs = "[FileSelected, MenuParsed [ramen, gyoza] ''Sakura'', RestaurantSaved ''Sakura'' ''Kyoto'',
         UpdateOrder ''Ramen'' 1, UpdateOrder ''Ramen'' 1, UpdateOrder ''Gyoza'' 1]"
  have r: "reachable (parse_table []) ?S None (run ?S ?evs (initial None))"
    using reachable_fresh by (rule reachable_run)
  have s: "slot (run ?S ?evs (initial None)) = Some session_text"
    by (simp only: session_run) simp
  have t: "session_text = ?S (snapshot_json session)"
    by (simp add: stringify_table_def)
  have m: "menuItems session \<noteq> []" by (simp add: session_def)
  have n: "slot (step ?S NewScan (run ?S ?evs (initial None))) = None"
    by (simp only: session_run) (simp add: step_def save_effect_def)
  from empty_catalog_never_persisted [OF r, of NewScan] r s t m n show ?thesis by blast
qed

end
